theory Spec2Isabelle
  imports Main "HOL-Library.Char_ord" "HOL-Library.List_Lexorder" "HOL-Library.Product_Lexorder"
begin

section \<open>Values\<close>

text \<open>
  The Python values that \<^verbatim>\<open>request.get_json()\<close> returns. JSON numbers with a
  fraction are left out (no floating point in this development). Strings are byte
  strings; the text functions below (\<^verbatim>\<open>int\<close>, \<^verbatim>\<open>lower\<close>, LIKE) are
  modelled on ASCII.
\<close>

datatype json =
    JNull
  | JBool bool
  | JInt int
  | JStr string
  | JArr "json list"
  | JObj "(string \<times> json) list"

text \<open>Python truthiness, as used by \<^verbatim>\<open>if not data\<close> and \<^verbatim>\<open>if data.get('isbn')\<close>.\<close>

fun truthy :: "json \<Rightarrow> bool" where
  "truthy JNull = False"
| "truthy (JBool b) = b"
| "truthy (JInt n) = (n \<noteq> 0)"
| "truthy (JStr s) = (s \<noteq> [])"
| "truthy (JArr xs) = (xs \<noteq> [])"
| "truthy (JObj kv) = (kv \<noteq> [])"

text \<open>\<^verbatim>\<open>data.get(k)\<close> on a dict: the value, or None when the key is missing.\<close>

definition dict_get :: "(string \<times> json) list \<Rightarrow> string \<Rightarrow> json" where
  "dict_get kv k = (case map_of kv k of None \<Rightarrow> JNull | Some v \<Rightarrow> v)"

section \<open>Outcomes of a request\<close>

datatype exn = AttributeError | TypeError | KeyError | ValueError | IntegrityError

text \<open>
  A handler either returns \<^verbatim>\<open>jsonify({'success': False, 'error': msg}), code\<close>
  (\<open>ErrorJson code msg\<close>), or lets an exception escape (\<open>Uncaught\<close>: no handler has a
  \<^verbatim>\<open>try\<close>, and Flask answers 500). \<open>LibraryDefined\<close> marks the inputs whose
  treatment is decided by code outside this repository (the database driver's
  coercion of a value that has not the column's type, integers beyond SQLite's 64 bits,
  version-dependent corners of the ORM): the model leaves their outcome open.
\<close>

datatype failure = ErrorJson nat string | Uncaught exn | LibraryDefined

section \<open>The Book model\<close>

text \<open>
  A datetime is held as its ISO-8601 text, so \<^verbatim>\<open>isoformat()\<close> is the identity
  (SQLite stores and orders it as text as well).
\<close>

type_synonym datetime = string

record book =
  book_id :: nat
  title :: string
  author :: string
  year :: "int option"
  isbn :: "string option"
  created_at :: "datetime option"

definition json_text :: "string option \<Rightarrow> json" where
  "json_text v = (case v of None \<Rightarrow> JNull | Some s \<Rightarrow> JStr s)"

definition json_int :: "int option \<Rightarrow> json" where
  "json_int v = (case v of None \<Rightarrow> JNull | Some n \<Rightarrow> JInt n)"

definition to_dict :: "book \<Rightarrow> (string \<times> json) list" where
  "to_dict b =
     [(''id'', JInt (int (book_id b))),
      (''title'', JStr (title b)),
      (''author'', JStr (author b)),
      (''year'', json_int (year b)),
      (''isbn'', json_text (isbn b)),
      (''created_at'', json_text (created_at b))]"

text \<open>The table: its rows in storage order. An insert appends.\<close>

type_synonym db = "book list"

definition in_int64 :: "int \<Rightarrow> bool" where
  "in_int64 n = (- (2 ^ 63) \<le> n \<and> n < 2 ^ 63)"

text \<open>\<^verbatim>\<open>Book.query.get(id)\<close>: the row with this primary key, or None.\<close>

definition query_get :: "db \<Rightarrow> nat \<Rightarrow> failure + book option" where
  "query_get rows i =
     (if in_int64 (int i) then Inr (find (\<lambda>b. book_id b = i) rows) else Inl LibraryDefined)"

section \<open>Responses\<close>

record list_body =
  r_count :: nat
  r_total_books :: nat
  r_total_pages :: nat
  r_current_page :: int
  r_sort :: string
  r_order :: string
  r_books :: "(string \<times> json) list list"

text \<open>Every response body below has \<^verbatim>\<open>'success': True\<close>.\<close>

datatype response =
    ListBody list_body
  | BookBody "(string \<times> json) list"
  | CreatedBody "(string \<times> json) list"
  | UpdatedBody "(string \<times> json) list"
  | DeletedBody
  | SearchBody nat "(string \<times> json) list list"

fun status :: "failure + response \<Rightarrow> nat option" where
  "status (Inl (ErrorJson code msg)) = Some code"
| "status (Inl (Uncaught e)) = Some 500"
| "status (Inl LibraryDefined) = None"
| "status (Inr (CreatedBody d)) = Some 201"
| "status (Inr r) = Some 200"

text \<open>The \<^verbatim>\<open>success\<close> field of the JSON answer; an uncaught exception has none.\<close>

fun success :: "failure + response \<Rightarrow> bool option" where
  "success (Inl (ErrorJson code msg)) = Some False"
| "success (Inl f) = None"
| "success (Inr r) = Some True"

section \<open>Reading and deleting one book\<close>

definition get_book :: "db \<Rightarrow> nat \<Rightarrow> failure + response" where
  "get_book rows i =
     (case query_get rows i of
        Inl f \<Rightarrow> Inl f
      | Inr None \<Rightarrow> Inl (ErrorJson 404 ''Book not found'')
      | Inr (Some b) \<Rightarrow> Inr (BookBody (to_dict b)))"

text \<open>
  \<^verbatim>\<open>db.session.delete(book); db.session.commit()\<close> removes the row of that
  primary key.
\<close>

definition delete_book :: "db \<Rightarrow> nat \<Rightarrow> db \<times> (failure + response)" where
  "delete_book rows i =
     (case query_get rows i of
        Inl f \<Rightarrow> (rows, Inl f)
      | Inr None \<Rightarrow> (rows, Inl (ErrorJson 404 ''Book not found''))
      | Inr (Some b) \<Rightarrow> (filter (\<lambda>r. book_id r \<noteq> i) rows, Inr DeletedBody))"

section \<open>Writing: create, update, seed\<close>

definition sbind :: "'e + 'a \<Rightarrow> ('a \<Rightarrow> 'e + 'b) \<Rightarrow> 'e + 'b" where
  "sbind m f = (case m of Inl e \<Rightarrow> Inl e | Inr x \<Rightarrow> f x)"

text \<open>
  The value bound to a \<^verbatim>\<open>db.String\<close> column: None or a str. Any other Python
  value is the driver's business.
\<close>

fun text_column :: "json \<Rightarrow> failure + string option" where
  "text_column JNull = Inr None"
| "text_column (JStr s) = Inr (Some s)"
| "text_column v = Inl LibraryDefined"

definition is_digit :: "char \<Rightarrow> bool" where
  "is_digit c = ((48::nat) \<le> of_char c \<and> of_char c \<le> (57::nat))"

text \<open>
  Text that is a plain decimal number: digits only, at most 18 of them (so that the
  number fits 64 bits), no leading zero.
\<close>

fun plain_decimal :: "string \<Rightarrow> bool" where
  "plain_decimal [] = False"
| "plain_decimal (c # cs) =
     (if c = CHR ''0'' then cs = []
      else list_all is_digit (c # cs) \<and> length cs < 18)"

definition decimal_value :: "string \<Rightarrow> int" where
  "decimal_value s = foldl (\<lambda>acc c. 10 * acc + (int (of_char c) - 48)) 0 s"

text \<open>
  The value that the \<^verbatim>\<open>db.Integer\<close> column holds after the commit. The ORM
  hands the Python value to SQLite as it is: None is NULL, an int of 64 bits is
  itself, a bool is the int 1 or 0, and the column's INTEGER affinity turns text that
  is a decimal number into that number (\<^verbatim>\<open>"2020"\<close> is stored as 2020). Other
  text and other values are the driver's business.
\<close>

fun int_column :: "json \<Rightarrow> failure + int option" where
  "int_column JNull = Inr None"
| "int_column (JInt n) = (if in_int64 n then Inr (Some n) else Inl LibraryDefined)"
| "int_column (JBool b) = Inr (Some (if b then 1 else 0))"
| "int_column (JStr s) =
     (if plain_decimal s then Inr (Some (decimal_value s)) else Inl LibraryDefined)"
| "int_column v = Inl LibraryDefined"


fun is_integer :: "json \<Rightarrow> bool" where
  "is_integer JNull = True"
| "is_integer (JInt n) = True"
| "is_integer v = False"

text \<open>\<^verbatim>\<open>Book.query.filter_by(isbn=v).first()\<close>, called with a truthy \<open>v\<close> only.\<close>

fun filter_by_isbn :: "db \<Rightarrow> json \<Rightarrow> failure + book option" where
  "filter_by_isbn rows (JStr s) = Inr (find (\<lambda>b. isbn b = Some s) rows)"
| "filter_by_isbn rows v = Inl LibraryDefined"

text \<open>
  The primary key SQLite gives a new row: one more than the largest in the table, 1 in
  an empty table.
\<close>

definition next_id :: "db \<Rightarrow> nat" where
  "next_id rows = Suc (fold max (map book_id rows) 0)"

text \<open>
  \<^verbatim>\<open>db.session.add(new_book); db.session.commit()\<close>. The INSERT is refused with an
  IntegrityError when \<^verbatim>\<open>title\<close> or \<^verbatim>\<open>author\<close> is NULL
  (\<^verbatim>\<open>nullable=False\<close>) and when another row has the same non-NULL
  \<^verbatim>\<open>isbn\<close> (\<^verbatim>\<open>unique=True\<close>); \<^verbatim>\<open>created_at\<close> takes its default, the
  time of the insert.
\<close>

definition commit_insert ::
  "datetime \<Rightarrow> db \<Rightarrow> json \<Rightarrow> json \<Rightarrow> json \<Rightarrow> json \<Rightarrow> failure + (db \<times> book)" where
  "commit_insert now rows t a y s =
     sbind (text_column t) (\<lambda>t'.
     sbind (text_column a) (\<lambda>a'.
     sbind (int_column y) (\<lambda>y'.
     sbind (text_column s) (\<lambda>s'.
       case t' of None \<Rightarrow> Inl (Uncaught IntegrityError) | Some tt \<Rightarrow>
       case a' of None \<Rightarrow> Inl (Uncaught IntegrityError) | Some aa \<Rightarrow>
       if (case s' of None \<Rightarrow> False | Some x \<Rightarrow> list_ex (\<lambda>r. isbn r = Some x) rows)
       then Inl (Uncaught IntegrityError)
       else if in_int64 (int (next_id rows))
       then (let b = \<lparr>book_id = next_id rows, title = tt, author = aa, year = y',
                       isbn = s', created_at = Some now\<rparr>
             in Inr (rows @ [b], b))
       else Inl LibraryDefined))))"

text \<open>
  \<^verbatim>\<open>create_book\<close>; \<open>data\<close> is what \<^verbatim>\<open>request.get_json()\<close> returned and \<open>now\<close>
  is \<^verbatim>\<open>datetime.utcnow()\<close> at the insert. A truthy value that is no dict has no
  \<^verbatim>\<open>get\<close>: AttributeError.
\<close>

definition create_book :: "datetime \<Rightarrow> db \<Rightarrow> json \<Rightarrow> db \<times> (failure + response)" where
  "create_book now rows data =
     (if \<not> truthy data then (rows, Inl (ErrorJson 400 ''No data provided''))
      else case data of
        JObj kv \<Rightarrow>
          if \<not> truthy (dict_get kv ''title'') then
            (rows, Inl (ErrorJson 400 ''Title and author are required''))
          else if \<not> truthy (dict_get kv ''author'') then
            (rows, Inl (ErrorJson 400 ''Title and author are required''))
          else
            (case (if truthy (dict_get kv ''isbn'')
                   then filter_by_isbn rows (dict_get kv ''isbn'') else Inr None) of
               Inl f \<Rightarrow> (rows, Inl f)
             | Inr (Some existing) \<Rightarrow> (rows, Inl (ErrorJson 400 ''ISBN already exists''))
             | Inr None \<Rightarrow>
                 (case commit_insert now rows (dict_get kv ''title'') (dict_get kv ''author'')
                         (dict_get kv ''year'') (dict_get kv ''isbn'') of
                    Inl f \<Rightarrow> (rows, Inl f)
                  | Inr (rows', b) \<Rightarrow> (rows', Inr (CreatedBody (to_dict b)))))
      | _ \<Rightarrow> (rows, Inl (Uncaught AttributeError)))"

text \<open>\<^verbatim>\<open>k in s\<close> on a str: \<open>k\<close> occurs in \<open>s\<close>.\<close>

fun is_substring :: "string \<Rightarrow> string \<Rightarrow> bool" where
  "is_substring k [] = (k = [])"
| "is_substring k (c # cs) = (if take (length k) (c # cs) = k then True else is_substring k cs)"

text \<open>\<^verbatim>\<open>k in data\<close>: on a dict its keys, on a list its elements, on a str its substrings.\<close>

fun py_in :: "string \<Rightarrow> json \<Rightarrow> exn + bool" where
  "py_in k (JObj kv) = Inr (k \<in> set (map fst kv))"
| "py_in k (JArr xs) = Inr (JStr k \<in> set xs)"
| "py_in k (JStr s) = Inr (is_substring k s)"
| "py_in k v = Inl TypeError"

text \<open>\<^verbatim>\<open>data[k]\<close> with a str \<open>k\<close>.\<close>

fun py_item :: "json \<Rightarrow> string \<Rightarrow> exn + json" where
  "py_item (JObj kv) k = (case map_of kv k of None \<Rightarrow> Inl KeyError | Some v \<Rightarrow> Inr v)"
| "py_item v k = Inl TypeError"

text \<open>
  \<^verbatim>\<open>if k in data: book.k = data[k]\<close>: the value assigned to the attribute, None
  when there was no assignment.
\<close>

definition assign :: "json \<Rightarrow> string \<Rightarrow> exn + json option" where
  "assign data k =
     sbind (py_in k data) (\<lambda>present.
       if present then sbind (py_item data k) (\<lambda>v. Inr (Some v)) else Inr None)"

text \<open>
  \<^verbatim>\<open>db.session.commit()\<close> after the assignments: the UPDATE of the row, refused
  with an IntegrityError when \<^verbatim>\<open>title\<close> or \<^verbatim>\<open>author\<close> became NULL and when
  \<^verbatim>\<open>isbn\<close> changed to a non-NULL value that another row has.
\<close>

definition commit_update ::
  "db \<Rightarrow> book \<Rightarrow> json option \<Rightarrow> json option \<Rightarrow> json option \<Rightarrow> json option
     \<Rightarrow> failure + (db \<times> book)" where
  "commit_update rows b t a y s =
     sbind (case t of None \<Rightarrow> Inr (Some (title b)) | Some v \<Rightarrow> text_column v) (\<lambda>t'.
     sbind (case a of None \<Rightarrow> Inr (Some (author b)) | Some v \<Rightarrow> text_column v) (\<lambda>a'.
     sbind (case y of None \<Rightarrow> Inr (year b) | Some v \<Rightarrow> int_column v) (\<lambda>y'.
     sbind (case s of None \<Rightarrow> Inr (isbn b) | Some v \<Rightarrow> text_column v) (\<lambda>s'.
       case t' of None \<Rightarrow> Inl (Uncaught IntegrityError) | Some tt \<Rightarrow>
       case a' of None \<Rightarrow> Inl (Uncaught IntegrityError) | Some aa \<Rightarrow>
       if s' \<noteq> isbn b \<and>
          (case s' of None \<Rightarrow> False
           | Some x \<Rightarrow> list_ex (\<lambda>r. book_id r \<noteq> book_id b \<and> isbn r = Some x) rows)
       then Inl (Uncaught IntegrityError)
       else (let b' = b\<lparr>title := tt, author := aa, year := y', isbn := s'\<rparr>
             in Inr (map (\<lambda>r. if book_id r = book_id b then b' else r) rows, b'))))))"

definition assignments ::
  "json \<Rightarrow> exn + (json option \<times> json option \<times> json option \<times> json option)" where
  "assignments data =
     sbind (assign data ''title'') (\<lambda>t.
     sbind (assign data ''author'') (\<lambda>a.
     sbind (assign data ''year'') (\<lambda>y.
     sbind (assign data ''isbn'') (\<lambda>s. Inr (t, a, y, s)))))"

definition update_book :: "db \<Rightarrow> nat \<Rightarrow> json \<Rightarrow> db \<times> (failure + response)" where
  "update_book rows i data =
     (case query_get rows i of
        Inl f \<Rightarrow> (rows, Inl f)
      | Inr None \<Rightarrow> (rows, Inl (ErrorJson 404 ''Book not found''))
      | Inr (Some b) \<Rightarrow>
          if \<not> truthy data then (rows, Inl (ErrorJson 400 ''No data provided''))
          else
            (case assignments data of
               Inl e \<Rightarrow> (rows, Inl (Uncaught e))
             | Inr (t, a, y, s) \<Rightarrow>
                 (case commit_update rows b t a y s of
                    Inl f \<Rightarrow> (rows, Inl f)
                  | Inr (rows', b') \<Rightarrow> (rows', Inr (UpdatedBody (to_dict b'))))))"

text \<open>
  \<^verbatim>\<open>init_db\<close>: three sample books, added when the table is empty; the three
  datetimes are the defaults of \<^verbatim>\<open>created_at\<close> at their inserts.
\<close>

definition init_db :: "datetime \<Rightarrow> datetime \<Rightarrow> datetime \<Rightarrow> db \<Rightarrow> db" where
  "init_db t1 t2 t3 rows =
     (if length rows = 0 then
        [\<lparr>book_id = 1, title = ''Python Crash Course'', author = ''Eric Matthes'',
          year = Some 2019, isbn = Some ''978-1593279288'', created_at = Some t1\<rparr>,
         \<lparr>book_id = 2, title = ''Flask Web Development'', author = ''Miguel Grinberg'',
          year = Some 2018, isbn = Some ''978-1491991732'', created_at = Some t2\<rparr>,
         \<lparr>book_id = 3, title = ''Clean Code'', author = ''Robert C. Martin'',
          year = Some 2008, isbn = Some ''978-0132350884'', created_at = Some t3\<rparr>]
      else rows)"

text \<open>No ISBN is held by two rows (NULL apart): what \<^verbatim>\<open>unique=True\<close> keeps.\<close>

definition isbn_unique :: "db \<Rightarrow> bool" where
  "isbn_unique rows = distinct (map isbn (filter (\<lambda>b. isbn b \<noteq> None) rows))"

section \<open>Text functions\<close>

definition lower_char :: "char \<Rightarrow> char" where
  "lower_char c =
     (if (65::nat) \<le> of_char c \<and> of_char c \<le> (90::nat)
      then char_of (of_char c + (32::nat)) else c)"

text \<open>\<^verbatim>\<open>s.lower()\<close>\<close>

definition lower :: "string \<Rightarrow> string" where
  "lower s = map lower_char s"

text \<open>
  SQL LIKE: \<^verbatim>\<open>%\<close> in the pattern stands for any run of characters, \<^verbatim>\<open>_\<close> for
  one character.
\<close>

function like :: "string \<Rightarrow> string \<Rightarrow> bool" where
  "like [] s = (s = [])"
| "like (p # ps) s =
     (if p = CHR ''%'' then
        (if like ps s then True else (case s of [] \<Rightarrow> False | c # cs \<Rightarrow> like (p # ps) cs))
      else (case s of [] \<Rightarrow> False
            | c # cs \<Rightarrow> if p = CHR ''_'' then like ps cs else (p = c \<and> like ps cs)))"
  by pat_completeness auto
termination
  by (relation "measure (\<lambda>(p, s). length p + length s)") auto

text \<open>\<^verbatim>\<open>column.ilike(pattern)\<close>: LIKE on the lowered column and pattern.\<close>

definition ilike :: "string \<Rightarrow> string \<Rightarrow> bool" where
  "ilike col pattern = like (lower pattern) (lower col)"

text \<open>The whitespace that \<^verbatim>\<open>int\<close> skips around a number: tab to carriage return, space.\<close>

definition is_space :: "char \<Rightarrow> bool" where
  "is_space c = (of_char c \<in> {9, 10, 11, 12, 13, 32 :: nat})"

definition strip :: "string \<Rightarrow> string" where
  "strip s = rev (dropWhile is_space (rev (dropWhile is_space s)))"

text \<open>
  The digits of a decimal literal, single underscores allowed between digits; \<open>prev\<close>
  says that the character before was a digit.
\<close>

fun digits :: "bool \<Rightarrow> int \<Rightarrow> string \<Rightarrow> int option" where
  "digits prev acc [] = (if prev then Some acc else None)"
| "digits prev acc (c # cs) =
     (if is_digit c then digits True (10 * acc + (int (of_char c) - 48)) cs
      else if c = CHR ''_'' \<and> prev then digits False acc cs
      else None)"

text \<open>
  An integer literal of base 10 in ASCII text: whitespace around it, a sign, digits.
  None when the text is no such literal.
\<close>

definition int_literal :: "string \<Rightarrow> int option" where
  "int_literal s =
     (case strip s of
        [] \<Rightarrow> None
      | c # cs \<Rightarrow>
          if c = CHR ''-'' then map_option uminus (digits False 0 cs)
          else if c = CHR ''+'' then digits False 0 cs
          else digits False 0 (c # cs))"

definition ascii :: "string \<Rightarrow> bool" where
  "ascii s = list_all (\<lambda>c. of_char c < (128::nat)) s"

text \<open>An ASCII character that no integer literal holds: no digit, sign, underscore or space.\<close>

definition hopeless :: "char \<Rightarrow> bool" where
  "hopeless c =
     (of_char c < (128::nat) \<and> \<not> is_digit c \<and> \<not> is_space c \<and>
      c \<noteq> CHR ''+'' \<and> c \<noteq> CHR ''-'' \<and> c \<noteq> CHR ''_'')"

text \<open>
  \<^verbatim>\<open>int(s)\<close>. On ASCII text it reads an integer literal or raises ValueError. On
  other text it first replaces the digits and spaces of other scripts and leaves ASCII
  characters as they are: text with an ASCII character that no literal holds raises
  ValueError as well, and the rest depends on the interpreter's character tables. (The
  interpreter's limit on the number of digits concerns numbers far beyond 64 bits.)
\<close>

definition py_int :: "string \<Rightarrow> failure + int" where
  "py_int s =
     (if ascii s then
        (case int_literal s of None \<Rightarrow> Inl (Uncaught ValueError) | Some n \<Rightarrow> Inr n)
      else if list_ex hopeless s then Inl (Uncaught ValueError)
      else Inl LibraryDefined)"

section \<open>Search\<close>

record search_args =
  s_q :: "string option"
  s_author :: "string option"
  s_year :: "string option"

definition search_books :: "db \<Rightarrow> search_args \<Rightarrow> failure + response" where
  "search_books rows args =
     (let rows1 = (case s_q args of
                     None \<Rightarrow> rows
                   | Some t \<Rightarrow> if t = [] then rows
                              else filter (\<lambda>b. ilike (title b) (''%'' @ t @ ''%'')) rows);
          rows2 = (case s_author args of
                     None \<Rightarrow> rows1
                   | Some a \<Rightarrow> if a = [] then rows1
                              else filter (\<lambda>b. ilike (author b) (''%'' @ a @ ''%'')) rows1)
      in case s_year args of
           None \<Rightarrow> Inr (SearchBody (length rows2) (map to_dict rows2))
         | Some y \<Rightarrow>
             if y = [] then Inr (SearchBody (length rows2) (map to_dict rows2))
             else (case py_int y of
                     Inl f \<Rightarrow> Inl f
                   | Inr n \<Rightarrow>
                       if in_int64 n then
                         (let rows3 = filter (\<lambda>b. year b = Some n) rows2
                          in Inr (SearchBody (length rows3) (map to_dict rows3)))
                       else Inl LibraryDefined))"

section \<open>Listing: sort and pagination\<close>

text \<open>
  The value of a column as SQLite orders it: NULL first, then integers, then text by
  its bytes.
\<close>

type_synonym cell = "nat \<times> int \<times> string"

definition cell_int :: "int option \<Rightarrow> cell" where
  "cell_int v = (case v of None \<Rightarrow> (0, 0, []) | Some n \<Rightarrow> (1, n, []))"

definition cell_text :: "string option \<Rightarrow> cell" where
  "cell_text v = (case v of None \<Rightarrow> (0, 0, []) | Some s \<Rightarrow> (2, 0, s))"

text \<open>\<^verbatim>\<open>getattr(Book, name)\<close> for the six columns of the model.\<close>

definition column :: "string \<Rightarrow> (book \<Rightarrow> cell) option" where
  "column name =
     (if name = ''id'' then Some (\<lambda>b. cell_int (Some (int (book_id b))))
      else if name = ''title'' then Some (\<lambda>b. cell_text (Some (title b)))
      else if name = ''author'' then Some (\<lambda>b. cell_text (Some (author b)))
      else if name = ''year'' then Some (\<lambda>b. cell_int (year b))
      else if name = ''isbn'' then Some (\<lambda>b. cell_text (isbn b))
      else if name = ''created_at'' then Some (\<lambda>b. cell_text (created_at b))
      else None)"


text \<open>
  Step 4 of \<^verbatim>\<open>get_books\<close>. \<^verbatim>\<open>hasattr(Book, sort_column)\<close> holds for the
  columns, for the method \<^verbatim>\<open>to_dict\<close> (a function: it has neither
  \<^verbatim>\<open>asc\<close> nor \<^verbatim>\<open>desc\<close>), and for the attributes that \<^verbatim>\<open>db.Model\<close> gives
  the class, which \<open>inherited\<close> tells. Rows that agree on the column keep their
  storage order, ascending and descending alike, as SQLite's sorter leaves them.
\<close>

definition order_by :: "(string \<Rightarrow> bool) \<Rightarrow> string \<Rightarrow> string \<Rightarrow> db \<Rightarrow> failure + db" where
  "order_by inherited sort_column order' rows =
     (case column sort_column of
        Some col \<Rightarrow>
          if lower order' = ''desc'' then Inr (rev (sort_key col (rev rows)))
          else Inr (sort_key col rows)
      | None \<Rightarrow>
          if sort_column = ''to_dict'' then Inl (Uncaught AttributeError)
          else if inherited sort_column then Inl LibraryDefined
          else Inr rows)"

record 'a pagination =
  pg_items :: "'a list"
  pg_total :: nat
  pg_pages :: nat
  pg_page :: int

text \<open>
  \<^verbatim>\<open>query.paginate(page=page, per_page=per_page, error_out=False)\<close>. The call gives
  no \<^verbatim>\<open>max_per_page\<close>, so the library's default applies: \<open>max_per_page\<close> is that
  default, None for no bound. A page below 1 is page 1, a negative \<^verbatim>\<open>per_page\<close> is
  20 (0 differs between versions of the library), LIMIT and OFFSET are 64-bit integers.
\<close>

definition paginate :: "int option \<Rightarrow> 'a list \<Rightarrow> int \<Rightarrow> int \<Rightarrow> failure + 'a pagination" where
  "paginate max_per_page rows page per_page =
     (let capped = (case max_per_page of None \<Rightarrow> per_page | Some m \<Rightarrow> min per_page m);
          page' = (if page < 1 then 1 else page);
          per_page' = (if capped < 1 then 20 else capped)
      in if capped = 0 then Inl LibraryDefined
         else if in_int64 per_page' \<and> in_int64 ((page' - 1) * per_page') then
           Inr \<lparr>pg_items = take (nat per_page') (drop (nat ((page' - 1) * per_page')) rows),
                pg_total = length rows,
                pg_pages = (if length rows = 0 then 0
                            else (length rows + nat per_page' - 1) div nat per_page'),
                pg_page = page'\<rparr>
         else Inl LibraryDefined)"

text \<open>
  The query parameters of the list request; \<open>a_page\<close> and \<open>a_per_page\<close> are what
  \<^verbatim>\<open>request.args.get(..., type=int)\<close> parsed, None when the parameter is absent or
  is no integer.
\<close>

record list_args =
  a_sort :: "string option"
  a_order :: "string option"
  a_page :: "int option"
  a_per_page :: "int option"

definition get_books ::
  "(string \<Rightarrow> bool) \<Rightarrow> int option \<Rightarrow> db \<Rightarrow> list_args \<Rightarrow> failure + response" where
  "get_books inherited max_per_page rows args =
     (let sort_column = (case a_sort args of None \<Rightarrow> ''id'' | Some s \<Rightarrow> s);
          order' = (case a_order args of None \<Rightarrow> ''asc'' | Some s \<Rightarrow> s);
          page = (case a_page args of None \<Rightarrow> 1 | Some p \<Rightarrow> p);
          per_page = (case a_per_page args of None \<Rightarrow> 10 | Some k \<Rightarrow> k)
      in case order_by inherited sort_column order' rows of
           Inl f \<Rightarrow> Inl f
         | Inr query \<Rightarrow>
             (case paginate max_per_page query page per_page of
                Inl f \<Rightarrow> Inl f
              | Inr pagination \<Rightarrow>
                  Inr (ListBody \<lparr>r_count = length (pg_items pagination),
                                 r_total_books = pg_total pagination,
                                 r_total_pages = pg_pages pagination,
                                 r_current_page = pg_page pagination,
                                 r_sort = sort_column,
                                 r_order = order',
                                 r_books = map to_dict (pg_items pagination)\<rparr>)))"

section \<open>Properties\<close>

subsection \<open>Auxiliary facts\<close>

lemma find_filter_other:
  "find (\<lambda>b. book_id b = i) (filter (\<lambda>r. book_id r \<noteq> i) rows) = None"
  by (simp add: find_None_iff)

subsection \<open>Delete\<close>

text \<open>
  C9. Deleting an existing book succeeds and removes its row, so that a get by the same
  id afterwards answers 404 with success false; deleting an id that has no book answers
  404 and leaves the table as it was. The id is one the database can hold (64 bits).
\<close>

theorem delete_book_removes:
  assumes "in_int64 (int i)"
  shows "(find (\<lambda>b. book_id b = i) rows \<noteq> None \<longrightarrow>
            snd (delete_book rows i) = Inr DeletedBody \<and>
            status (snd (delete_book rows i)) = Some 200 \<and>
            fst (delete_book rows i) = filter (\<lambda>r. book_id r \<noteq> i) rows \<and>
            get_book (fst (delete_book rows i)) i = Inl (ErrorJson 404 ''Book not found'') \<and>
            success (get_book (fst (delete_book rows i)) i) = Some False) \<and>
         (find (\<lambda>b. book_id b = i) rows = None \<longrightarrow>
            delete_book rows i = (rows, Inl (ErrorJson 404 ''Book not found'')))"
  using assms
  by (auto simp: delete_book_def get_book_def query_get_def find_filter_other)

theorem delete_book_removes_witness:
  "delete_book (init_db ''a'' ''b'' ''c'' []) 2 =
     ([\<lparr>book_id = 1, title = ''Python Crash Course'', author = ''Eric Matthes'',
        year = Some 2019, isbn = Some ''978-1593279288'', created_at = Some ''a''\<rparr>,
       \<lparr>book_id = 3, title = ''Clean Code'', author = ''Robert C. Martin'',
        year = Some 2008, isbn = Some ''978-0132350884'', created_at = Some ''c''\<rparr>],
      Inr DeletedBody) \<and>
   get_book (fst (delete_book (init_db ''a'' ''b'' ''c'' []) 2)) 2
     = Inl (ErrorJson 404 ''Book not found'') \<and>
   delete_book (init_db ''a'' ''b'' ''c'' []) 7
     = (init_db ''a'' ''b'' ''c'' [], Inl (ErrorJson 404 ''Book not found''))"
proof -
  have r: "in_int64 (int 2)" "in_int64 (int 7)"
    by (simp_all add: in_int64_def)
  show ?thesis
    using delete_book_removes [OF r(1), of "init_db ''a'' ''b'' ''c'' []"]
          delete_book_removes [OF r(2), of "init_db ''a'' ''b'' ''c'' []"]
    by (simp add: init_db_def delete_book_def query_get_def in_int64_def)
qed

subsection \<open>Create and update\<close>







lemma int_column_typed: "int_column v = Inr x \<Longrightarrow> is_integer v \<Longrightarrow> v = json_int x"
  by (cases v) (auto simp: json_int_def split: if_splits)





lemma filter_replace:
  "book_id b' = i \<Longrightarrow>
   filter (\<lambda>r. book_id r \<noteq> i) (map (\<lambda>r. if book_id r = i then b' else r) rows)
     = filter (\<lambda>r. book_id r \<noteq> i) rows"
  by (induction rows) auto

lemma find_replace:
  "find (\<lambda>r. book_id r = i) rows = Some b \<Longrightarrow> book_id b' = i \<Longrightarrow>
   find (\<lambda>r. book_id r = i) (map (\<lambda>r. if book_id r = i then b' else r) rows) = Some b'"
  by (induction rows) (auto split: if_splits)

lemma find_book_id: "find (\<lambda>r. book_id r = i) rows = Some b \<Longrightarrow> book_id b = i \<and> b \<in> set rows"
  by (induction rows) (auto split: if_splits)

lemma text_column_Inr: "text_column v = Inr x \<Longrightarrow> v = json_text x"
  by (cases v) (auto simp: json_text_def)

lemma commit_update_Inr:
  assumes "commit_update rows b t a y s = Inr (rows', b')"
  shows "rows' = map (\<lambda>r. if book_id r = book_id b then b' else r) rows \<and>
         book_id b' = book_id b \<and> created_at b' = created_at b \<and>
         (case t of None \<Rightarrow> title b' = title b | Some v \<Rightarrow> v = JStr (title b')) \<and>
         (case a of None \<Rightarrow> author b' = author b | Some v \<Rightarrow> v = JStr (author b')) \<and>
         (case y of None \<Rightarrow> year b' = year b | Some v \<Rightarrow> int_column v = Inr (year b')) \<and>
         (case s of None \<Rightarrow> isbn b' = isbn b | Some v \<Rightarrow> v = json_text (isbn b'))"
proof -
  let ?T = "case t of None \<Rightarrow> Inr (Some (title b)) | Some v \<Rightarrow> text_column v"
  let ?A = "case a of None \<Rightarrow> Inr (Some (author b)) | Some v \<Rightarrow> text_column v"
  let ?Y = "case y of None \<Rightarrow> Inr (year b) | Some v \<Rightarrow> int_column v"
  let ?S = "case s of None \<Rightarrow> Inr (isbn b) | Some v \<Rightarrow> text_column v"
  obtain t' where t': "?T = Inr t'"
    using assms by (cases ?T) (auto simp: commit_update_def sbind_def)
  obtain a' where a': "?A = Inr a'"
    using assms t' by (cases ?A) (auto simp: commit_update_def sbind_def)
  obtain y' where y': "?Y = Inr y'"
    using assms t' a' by (cases ?Y) (auto simp: commit_update_def sbind_def)
  obtain s' where s': "?S = Inr s'"
    using assms t' a' y' by (cases ?S) (auto simp: commit_update_def sbind_def)
  from assms t' a' y' s' obtain tt aa where
    tt: "t' = Some tt" and aa: "a' = Some aa" and
    b': "b' = b\<lparr>title := tt, author := aa, year := y', isbn := s'\<rparr>" and
    rows': "rows' = map (\<lambda>r. if book_id r = book_id b then b' else r) rows"
    by (auto simp: commit_update_def sbind_def Let_def split: option.splits if_splits)
  have 1: "case t of None \<Rightarrow> title b' = title b | Some v \<Rightarrow> v = JStr (title b')"
    using t' tt b' by (auto split: option.splits dest: text_column_Inr simp: json_text_def)
  have 2: "case a of None \<Rightarrow> author b' = author b | Some v \<Rightarrow> v = JStr (author b')"
    using a' aa b' by (auto split: option.splits dest: text_column_Inr simp: json_text_def)
  have 3: "case y of None \<Rightarrow> year b' = year b | Some v \<Rightarrow> int_column v = Inr (year b')"
    using y' b' by (auto split: option.splits)
  have 4: "case s of None \<Rightarrow> isbn b' = isbn b | Some v \<Rightarrow> v = json_text (isbn b')"
    using s' b' by (auto split: option.splits dest: text_column_Inr)
  from rows' b' 1 2 3 4 show ?thesis by simp
qed

lemma assign_Inr:
  "assign data k = Inr v \<Longrightarrow>
     (case v of None \<Rightarrow> py_in k data = Inr False
      | Some x \<Rightarrow> py_in k data = Inr True \<and> py_item data k = Inr x)"
  by (cases "py_in k data"; cases "py_item data k")
     (auto simp: assign_def sbind_def split: if_splits option.splits)

lemma assignments_Inr:
  "assignments data = Inr (t, a, y, s) \<Longrightarrow>
     assign data ''title'' = Inr t \<and> assign data ''author'' = Inr a \<and>
     assign data ''year'' = Inr y \<and> assign data ''isbn'' = Inr s"
  by (auto simp: assignments_def sbind_def split: sum.splits)

text \<open>
  C5. Frame of an update: for an existing book and any body, the book keeps its id and
  its \<^verbatim>\<open>created_at\<close>, every field whose key is not in the body keeps its value, and
  the other rows are untouched; when the update succeeds, the fields whose keys are in
  the body hold the body's values (a \<^verbatim>\<open>year\<close> that is no int: the integer that the
  column stored for it) and the answer is the representation of the updated row.
  (Outcomes that the model leaves to the database driver are set aside.)
\<close>

theorem update_book_frame:
  assumes "query_get rows i = Inr (Some b)"
    and "snd (update_book rows i data) \<noteq> Inl LibraryDefined"
  shows "\<exists>b'. query_get (fst (update_book rows i data)) i = Inr (Some b') \<and>
           book_id b' = book_id b \<and> created_at b' = created_at b \<and>
           (py_in ''title'' data \<noteq> Inr True \<longrightarrow> title b' = title b) \<and>
           (py_in ''author'' data \<noteq> Inr True \<longrightarrow> author b' = author b) \<and>
           (py_in ''year'' data \<noteq> Inr True \<longrightarrow> year b' = year b) \<and>
           (py_in ''isbn'' data \<noteq> Inr True \<longrightarrow> isbn b' = isbn b) \<and>
           filter (\<lambda>r. book_id r \<noteq> i) (fst (update_book rows i data))
             = filter (\<lambda>r. book_id r \<noteq> i) rows \<and>
           (\<forall>r. snd (update_book rows i data) = Inr r \<longrightarrow>
              r = UpdatedBody (to_dict b') \<and>
              (py_in ''title'' data = Inr True \<longrightarrow> py_item data ''title'' = Inr (JStr (title b'))) \<and>
              (py_in ''author'' data = Inr True \<longrightarrow> py_item data ''author'' = Inr (JStr (author b'))) \<and>
              (py_in ''year'' data = Inr True \<longrightarrow>
                 (\<exists>v. py_item data ''year'' = Inr v \<and> int_column v = Inr (year b') \<and>
                      (is_integer v \<longrightarrow> v = json_int (year b')))) \<and>
              (py_in ''isbn'' data = Inr True \<longrightarrow> py_item data ''isbn'' = Inr (json_text (isbn b'))))"
proof (cases "\<exists>r. snd (update_book rows i data) = Inr r")
  case False
  then have "fst (update_book rows i data) = rows"
    using assms(1)
    by (auto simp: update_book_def split: if_splits sum.splits option.splits prod.splits)
  with False assms(1) show ?thesis by auto
next
  case True
  then obtain r where r: "snd (update_book rows i data) = Inr r" by blast
  from r assms(1) obtain t a y s rows' b' where
    asg: "assignments data = Inr (t, a, y, s)" and
    com: "commit_update rows b t a y s = Inr (rows', b')" and
    res: "update_book rows i data = (rows', Inr (UpdatedBody (to_dict b')))"
    by (auto simp: update_book_def split: if_splits sum.splits option.splits prod.splits)
  note u = commit_update_Inr [OF com]
  note g = assignments_Inr [OF asg]
  have bi: "book_id b = i" and fb: "find (\<lambda>r. book_id r = i) rows = Some b"
    and rng: "in_int64 (int i)"
    using assms(1) find_book_id [of i rows b] by (auto simp: query_get_def split: if_splits)
  have q: "query_get rows' i = Inr (Some b')"
    using u bi fb rng find_replace [of i rows b b'] by (simp add: query_get_def)
  have fr: "filter (\<lambda>r. book_id r \<noteq> i) rows' = filter (\<lambda>r. book_id r \<noteq> i) rows"
    using u bi filter_replace [of b' i rows] by simp
  have T: "(py_in ''title'' data \<noteq> Inr True \<longrightarrow> title b' = title b) \<and>
           (py_in ''title'' data = Inr True \<longrightarrow> py_item data ''title'' = Inr (JStr (title b')))"
    using u assign_Inr [of data "''title''" t] g by (auto split: option.splits)
  have A: "(py_in ''author'' data \<noteq> Inr True \<longrightarrow> author b' = author b) \<and>
           (py_in ''author'' data = Inr True \<longrightarrow> py_item data ''author'' = Inr (JStr (author b')))"
    using u assign_Inr [of data "''author''" a] g by (auto split: option.splits)
  have Y: "(py_in ''year'' data \<noteq> Inr True \<longrightarrow> year b' = year b) \<and>
           (py_in ''year'' data = Inr True \<longrightarrow>
              (\<exists>v. py_item data ''year'' = Inr v \<and> int_column v = Inr (year b') \<and>
                   (is_integer v \<longrightarrow> v = json_int (year b'))))"
    using u assign_Inr [of data "''year''" y] g
    by (auto split: option.splits dest: int_column_typed)
  have S: "(py_in ''isbn'' data \<noteq> Inr True \<longrightarrow> isbn b' = isbn b) \<and>
           (py_in ''isbn'' data = Inr True \<longrightarrow> py_item data ''isbn'' = Inr (json_text (isbn b')))"
    using u assign_Inr [of data "''isbn''" s] g by (auto split: option.splits)
  show ?thesis
    using res q fr T A Y S u by (intro exI [of _ b']) simp
qed

theorem update_book_frame_witness:
  "update_book (init_db ''a'' ''b'' ''c'' []) 1 (JObj [(''author'', JStr ''X'')])
   = ([\<lparr>book_id = 1, title = ''Python Crash Course'', author = ''X'',
        year = Some 2019, isbn = Some ''978-1593279288'', created_at = Some ''a''\<rparr>,
       \<lparr>book_id = 2, title = ''Flask Web Development'', author = ''Miguel Grinberg'',
        year = Some 2018, isbn = Some ''978-1491991732'', created_at = Some ''b''\<rparr>,
       \<lparr>book_id = 3, title = ''Clean Code'', author = ''Robert C. Martin'',
        year = Some 2008, isbn = Some ''978-0132350884'', created_at = Some ''c''\<rparr>],
      Inr (UpdatedBody (to_dict
        \<lparr>book_id = 1, title = ''Python Crash Course'', author = ''X'',
         year = Some 2019, isbn = Some ''978-1593279288'', created_at = Some ''a''\<rparr>)))"
proof -
  have q: "query_get (init_db ''a'' ''b'' ''c'' []) 1 =
             Inr (Some \<lparr>book_id = 1, title = ''Python Crash Course'', author = ''Eric Matthes'',
                        year = Some 2019, isbn = Some ''978-1593279288'',
                        created_at = Some ''a''\<rparr>)"
    by (simp add: query_get_def init_db_def in_int64_def)
  have u: "update_book (init_db ''a'' ''b'' ''c'' []) 1 (JObj [(''author'', JStr ''X'')])
   = ([\<lparr>book_id = 1, title = ''Python Crash Course'', author = ''X'',
        year = Some 2019, isbn = Some ''978-1593279288'', created_at = Some ''a''\<rparr>,
       \<lparr>book_id = 2, title = ''Flask Web Development'', author = ''Miguel Grinberg'',
        year = Some 2018, isbn = Some ''978-1491991732'', created_at = Some ''b''\<rparr>,
       \<lparr>book_id = 3, title = ''Clean Code'', author = ''Robert C. Martin'',
        year = Some 2008, isbn = Some ''978-0132350884'', created_at = Some ''c''\<rparr>],
      Inr (UpdatedBody (to_dict
        \<lparr>book_id = 1, title = ''Python Crash Course'', author = ''X'',
         year = Some 2019, isbn = Some ''978-1593279288'', created_at = Some ''a''\<rparr>)))"
    by (simp add: update_book_def query_get_def init_db_def in_int64_def assignments_def
          assign_def sbind_def commit_update_def Let_def)
  have n: "snd (update_book (init_db ''a'' ''b'' ''c'' []) 1 (JObj [(''author'', JStr ''X'')]))
             \<noteq> Inl LibraryDefined"
    using u by simp
  show ?thesis
    using update_book_frame [OF q n] u by simp
qed

lemma distinct_map_eq:
  "distinct (map f xs) \<Longrightarrow> x \<in> set xs \<Longrightarrow> y \<in> set xs \<Longrightarrow> f x = f y \<Longrightarrow> x = y"
  by (auto simp: distinct_map dest: inj_onD)

lemma isbn_unique_other:
  assumes "isbn_unique rows" "b \<in> set rows" "r \<in> set rows" "book_id r \<noteq> book_id b"
    "isbn r = Some s"
  shows "isbn b \<noteq> Some s"
proof
  assume "isbn b = Some s"
  with assms have "b \<in> set (filter (\<lambda>b. isbn b \<noteq> None) rows)"
    "r \<in> set (filter (\<lambda>b. isbn b \<noteq> None) rows)" "isbn r = isbn b"
    by auto
  with assms(1) have "r = b"
    unfolding isbn_unique_def by (blast dest: distinct_map_eq)
  with assms(4) show False by simp
qed

lemma text_column_Inl: "text_column v = Inl x \<Longrightarrow> x = LibraryDefined"
  by (cases v) auto

lemma int_column_Inl: "int_column v = Inl x \<Longrightarrow> x = LibraryDefined"
  by (cases v) (auto split: if_splits)

lemma assign_JObj: "assign (JObj kv) k = Inr (map_of kv k)"
proof (cases "map_of kv k")
  case None
  then have "k \<notin> fst ` set kv" by (simp add: map_of_eq_None_iff)
  with None show ?thesis by (simp add: assign_def sbind_def)
next
  case (Some v)
  then have "k \<in> fst ` set kv" by (auto dest: map_of_SomeD intro: rev_image_eqI)
  with Some show ?thesis by (simp add: assign_def sbind_def)
qed

lemma assignments_JObj:
  "assignments (JObj kv) =
     Inr (map_of kv ''title'', map_of kv ''author'', map_of kv ''year'', map_of kv ''isbn'')"
  by (simp add: assignments_def assign_JObj sbind_def)

subsection \<open>The unique constraint on isbn\<close>

text \<open>
  C2, as the code has it. \<^verbatim>\<open>update_book\<close> makes no check of its own on the isbn, but
  the column is declared \<^verbatim>\<open>unique=True\<close>: when the table holds no ISBN twice and
  the body's isbn is the isbn of another book, the commit is refused, the request ends
  in an uncaught IntegrityError (a 500), the table is as before and still holds no ISBN
  twice.
\<close>

theorem update_duplicate_isbn_refused:
  assumes "isbn_unique rows"
    and "query_get rows i = Inr (Some b)"
    and "map_of kv ''isbn'' = Some (JStr s)"
    and "list_ex (\<lambda>r. book_id r \<noteq> i \<and> isbn r = Some s) rows"
    and "snd (update_book rows i (JObj kv)) \<noteq> Inl LibraryDefined"
  shows "update_book rows i (JObj kv) = (rows, Inl (Uncaught IntegrityError)) \<and>
         status (snd (update_book rows i (JObj kv))) = Some 500 \<and>
         isbn_unique (fst (update_book rows i (JObj kv)))"
proof -
  have bi: "book_id b = i" and bm: "b \<in> set rows"
    using assms(2) find_book_id [of i rows b] by (auto simp: query_get_def split: if_splits)
  from assms(4) obtain r where r: "r \<in> set rows" "book_id r \<noteq> i" "isbn r = Some s"
    by (auto simp: list_ex_iff)
  have ne: "isbn b \<noteq> Some s"
    using isbn_unique_other [OF assms(1) bm r(1) _ r(3)] r(2) bi by simp
  have kv: "kv \<noteq> []" using assms(3) by auto
  obtain t a y where asg: "assignments (JObj kv) = Inr (t, a, y, Some (JStr s))"
    using assms(3) by (simp add: assignments_JObj)
  have "commit_update rows b t a y (Some (JStr s)) = Inl (Uncaught IntegrityError) \<or>
        commit_update rows b t a y (Some (JStr s)) = Inl LibraryDefined"
    using ne assms(4) bi
    by (auto simp: commit_update_def sbind_def Let_def split: sum.splits option.splits
          dest: text_column_Inl int_column_Inl)
  then have "update_book rows i (JObj kv) = (rows, Inl (Uncaught IntegrityError))"
    using assms(2,5) asg kv by (auto simp: update_book_def)
  with assms(1) show ?thesis by simp
qed

theorem update_duplicate_isbn_counterexample:
  "update_book (init_db ''a'' ''b'' ''c'' []) 2 (JObj [(''isbn'', JStr ''978-1593279288'')])
     = (init_db ''a'' ''b'' ''c'' [], Inl (Uncaught IntegrityError))"
  by (simp add: update_book_def query_get_def init_db_def in_int64_def assignments_def
        assign_def sbind_def commit_update_def Let_def)

theorem update_duplicate_isbn_refused_witness:
  "isbn_unique (init_db ''a'' ''b'' ''c'' []) \<and>
   update_book (init_db ''a'' ''b'' ''c'' []) 3 (JObj [(''isbn'', JStr ''978-1491991732'')])
     = (init_db ''a'' ''b'' ''c'' [], Inl (Uncaught IntegrityError))"
proof -
  let ?rows = "init_db ''a'' ''b'' ''c'' []"
  let ?kv = "[(''isbn'', JStr ''978-1491991732'')]"
  have 1: "isbn_unique ?rows" by (simp add: isbn_unique_def init_db_def)
  have 2: "query_get ?rows 3 =
             Inr (Some \<lparr>book_id = 3, title = ''Clean Code'', author = ''Robert C. Martin'',
                        year = Some 2008, isbn = Some ''978-0132350884'',
                        created_at = Some ''c''\<rparr>)"
    by (simp add: query_get_def init_db_def in_int64_def)
  have 3: "map_of ?kv ''isbn'' = Some (JStr ''978-1491991732'')" by simp
  have 4: "list_ex (\<lambda>r. book_id r \<noteq> 3 \<and> isbn r = Some ''978-1491991732'') ?rows"
    by (simp add: init_db_def)
  have 5: "snd (update_book ?rows 3 (JObj ?kv)) \<noteq> Inl LibraryDefined"
    by (simp add: update_book_def query_get_def init_db_def in_int64_def assignments_def
          assign_def sbind_def commit_update_def Let_def)
  show ?thesis
    using update_duplicate_isbn_refused [OF 1 2 3 4 5] 1 by simp
qed

subsection \<open>Search\<close>

lemma digits_Some_chars:
  "digits prev acc s = Some n \<Longrightarrow> list_all (\<lambda>c. is_digit c \<or> c = CHR ''_'') s"
  by (induction prev acc s rule: digits.induct) (auto split: if_splits)

lemma digits_hopeless: "list_ex hopeless s \<Longrightarrow> digits prev acc s = None"
proof (rule ccontr)
  assume h: "list_ex hopeless s" and "digits prev acc s \<noteq> None"
  then obtain n where "digits prev acc s = Some n" by auto
  then have "list_all (\<lambda>c. is_digit c \<or> c = CHR ''_'') s" by (rule digits_Some_chars)
  with h show False by (auto simp: list_ex_iff list_all_iff hopeless_def)
qed

lemma digits_Some_digit:
  "digits prev acc s = Some n \<Longrightarrow> prev \<or> list_ex is_digit s"
  by (induction prev acc s rule: digits.induct) (auto split: if_splits)

lemma mem_dropWhile: "c \<in> set s \<Longrightarrow> \<not> P c \<Longrightarrow> c \<in> set (dropWhile P s)"
  by (induction s) auto

lemma strip_keeps: "c \<in> set s \<Longrightarrow> \<not> is_space c \<Longrightarrow> c \<in> set (strip s)"
  by (simp add: strip_def mem_dropWhile)

lemma set_strip: "set (strip s) \<subseteq> set s"
  by (auto simp: strip_def dest!: set_dropWhileD)

lemma int_literal_hopeless:
  assumes "list_ex hopeless s"
  shows "int_literal s = None"
proof -
  from assms obtain c where c: "c \<in> set s" "hopeless c" by (auto simp: list_ex_iff)
  then have m: "c \<in> set (strip s)" by (simp add: strip_keeps hopeless_def)
  show ?thesis
  proof (cases "strip s")
    case Nil
    with m show ?thesis by simp
  next
    case (Cons x xs)
    show ?thesis
    proof (cases "x = CHR ''-'' \<or> x = CHR ''+''")
      case True
      with m Cons c(2) have "list_ex hopeless xs" by (auto simp: list_ex_iff hopeless_def)
      then have "digits False 0 xs = None" by (rule digits_hopeless)
      with True Cons show ?thesis by (auto simp: int_literal_def)
    next
      case False
      from m Cons c(2) have "list_ex hopeless (x # xs)" by (auto simp: list_ex_iff)
      then have "digits False 0 (x # xs) = None" by (rule digits_hopeless)
      with False Cons show ?thesis by (simp add: int_literal_def)
    qed
  qed
qed

lemma int_literal_no_digit:
  assumes "\<not> list_ex is_digit s"
  shows "int_literal s = None"
proof (cases "strip s")
  case Nil
  then show ?thesis by (simp add: int_literal_def)
next
  case (Cons x xs)
  have nd: "\<not> list_ex is_digit (x # xs)"
    using assms set_strip [of s] Cons by (auto simp: list_ex_iff)
  then have "digits False 0 (x # xs) = None" "digits False 0 xs = None"
    using digits_Some_digit [of False 0 "x # xs"] digits_Some_digit [of False 0 xs]
    by (cases "digits False 0 (x # xs)"; cases "digits False 0 xs"; auto)+
  with Cons show ?thesis by (simp add: int_literal_def)
qed

lemma py_int_hopeless: "list_ex hopeless s \<Longrightarrow> py_int s = Inl (Uncaught ValueError)"
  by (simp add: py_int_def int_literal_hopeless)

text \<open>
  C3, as the code has it. A \<^verbatim>\<open>year\<close> parameter that is present, not empty and that
  \<^verbatim>\<open>int\<close> does not read makes \<^verbatim>\<open>int(year)\<close> raise a ValueError that nothing
  catches: a 500 without the JSON body of an error answer, not a 400. That is so for
  every year with an ASCII character that is no digit, sign, underscore or whitespace,
  for every non-empty ASCII year without a digit, and for every non-empty ASCII year
  that is no integer literal. An empty \<^verbatim>\<open>year\<close> is skipped like an absent one.
\<close>

theorem search_year_not_numeric:
  "(list_ex hopeless y \<longrightarrow>
      search_books rows (args\<lparr>s_year := Some y\<rparr>) = Inl (Uncaught ValueError) \<and>
      status (search_books rows (args\<lparr>s_year := Some y\<rparr>)) = Some 500 \<and>
      success (search_books rows (args\<lparr>s_year := Some y\<rparr>)) = None) \<and>
   (y \<noteq> [] \<and> ascii y \<and> \<not> list_ex is_digit y \<longrightarrow>
      search_books rows (args\<lparr>s_year := Some y\<rparr>) = Inl (Uncaught ValueError)) \<and>
   (y \<noteq> [] \<and> ascii y \<and> int_literal y = None \<longrightarrow>
      search_books rows (args\<lparr>s_year := Some y\<rparr>) = Inl (Uncaught ValueError) \<and>
      status (search_books rows (args\<lparr>s_year := Some y\<rparr>)) = Some 500 \<and>
      success (search_books rows (args\<lparr>s_year := Some y\<rparr>)) = None) \<and>
   search_books rows (args\<lparr>s_year := Some []\<rparr>) = search_books rows (args\<lparr>s_year := None\<rparr>)"
proof -
  have 1: "search_books rows (args\<lparr>s_year := Some y\<rparr>) = Inl (Uncaught ValueError)"
    if "list_ex hopeless y"
  proof -
    from that have "y \<noteq> []" by auto
    with that show ?thesis by (simp add: search_books_def Let_def py_int_hopeless)
  qed
  have 2: "search_books rows (args\<lparr>s_year := Some y\<rparr>) = Inl (Uncaught ValueError)"
    if "y \<noteq> []" "ascii y" "int_literal y = None"
    using that by (simp add: search_books_def Let_def py_int_def)
  have 3: "search_books rows (args\<lparr>s_year := Some []\<rparr>)
             = search_books rows (args\<lparr>s_year := None\<rparr>)"
    by (simp add: search_books_def Let_def)
  show ?thesis
    using 1 2 3 int_literal_no_digit [of y] by simp
qed

theorem search_year_counterexample:
  "search_books (init_db ''a'' ''b'' ''c'' [])
     \<lparr>s_q = None, s_author = None, s_year = Some ''abc''\<rparr> = Inl (Uncaught ValueError)"
  by (simp add: search_books_def py_int_def int_literal_def ascii_def strip_def is_space_def
        is_digit_def)

theorem search_year_not_numeric_witness:
  "search_books [] \<lparr>s_q = Some ''x'', s_author = None, s_year = Some ''20x8''\<rparr>
     = Inl (Uncaught ValueError) \<and>
   search_books [] \<lparr>s_q = Some ''x'', s_author = None, s_year = Some (CHR 0x1F # ''2019'')\<rparr>
     = Inl (Uncaught ValueError) \<and>
   search_books [] \<lparr>s_q = Some ''x'', s_author = None, s_year = Some ''1__0''\<rparr>
     = Inl (Uncaught ValueError)"
proof -
  let ?args = "\<lparr>s_q = Some ''x'', s_author = None, s_year = None\<rparr>"
  have 1: "list_ex hopeless ''20x8''"
    by (simp add: hopeless_def is_digit_def is_space_def)
  have 2: "list_ex hopeless (CHR 0x1F # ''2019'')"
    by (simp add: hopeless_def is_digit_def is_space_def)
  have 3: "''1__0'' \<noteq> [] \<and> ascii ''1__0'' \<and> int_literal ''1__0'' = None"
    by (simp add: ascii_def int_literal_def strip_def is_space_def is_digit_def)
  note a = search_year_not_numeric
    [of "''20x8''" "[]" ?args, THEN conjunct1, THEN mp, OF 1, THEN conjunct1]
  note b = search_year_not_numeric
    [of "CHR 0x1F # ''2019''" "[]" ?args, THEN conjunct1, THEN mp, OF 2, THEN conjunct1]
  note c = search_year_not_numeric
    [of "''1__0''" "[]" ?args, THEN conjunct2, THEN conjunct2, THEN conjunct1, THEN mp, OF 3,
     THEN conjunct1]
  show ?thesis
    using a b c by simp
qed

subsection \<open>Inputs that the validation lets through\<close>

text \<open>
  C1 at a failing input: on the seeded table, an update of book 1 with the body
  \<^verbatim>\<open>{"title": ""}\<close> succeeds and the stored row has an empty title.
\<close>

theorem update_book_empty_title:
  "update_book (init_db t1 t2 t3 []) 1 (JObj [(''title'', JStr [])])
   = ([\<lparr>book_id = 1, title = [], author = ''Eric Matthes'',
        year = Some 2019, isbn = Some ''978-1593279288'', created_at = Some t1\<rparr>,
       \<lparr>book_id = 2, title = ''Flask Web Development'', author = ''Miguel Grinberg'',
        year = Some 2018, isbn = Some ''978-1491991732'', created_at = Some t2\<rparr>,
       \<lparr>book_id = 3, title = ''Clean Code'', author = ''Robert C. Martin'',
        year = Some 2008, isbn = Some ''978-0132350884'', created_at = Some t3\<rparr>],
      Inr (UpdatedBody (to_dict
        \<lparr>book_id = 1, title = [], author = ''Eric Matthes'',
         year = Some 2019, isbn = Some ''978-1593279288'', created_at = Some t1\<rparr>)))"
  by (simp add: update_book_def query_get_def init_db_def in_int64_def assignments_def
        assign_def sbind_def commit_update_def Let_def)

text \<open>
  C4 at a failing input: \<^verbatim>\<open>sort=to_dict\<close> names no column of Book, yet the class
  has the attribute; the request ends in an uncaught AttributeError whatever the other
  parameters and the table are.
\<close>

theorem get_books_sort_to_dict:
  "get_books inherited max_per_page rows
     \<lparr>a_sort = Some ''to_dict'', a_order = ord, a_page = p, a_per_page = k\<rparr>
   = Inl (Uncaught AttributeError)"
  by (simp add: get_books_def order_by_def column_def)

text \<open>
  C6 at failing inputs: the body with \<^verbatim>\<open>"isbn": ""\<close> is accepted once, and the
  same body then ends in an uncaught IntegrityError, neither a 400 nor a 201; a body that
  is a non-empty list ends in an uncaught AttributeError.
\<close>

theorem create_book_blank_isbn_twice:
  "create_book t1 [] (JObj [(''title'', JStr ''T''), (''author'', JStr ''A''), (''isbn'', JStr [])])
     = ([\<lparr>book_id = 1, title = ''T'', author = ''A'', year = None, isbn = Some [],
          created_at = Some t1\<rparr>],
        Inr (CreatedBody (to_dict \<lparr>book_id = 1, title = ''T'', author = ''A'', year = None,
               isbn = Some [], created_at = Some t1\<rparr>))) \<and>
   create_book t2
     [\<lparr>book_id = 1, title = ''T'', author = ''A'', year = None, isbn = Some [],
       created_at = Some t1\<rparr>]
     (JObj [(''title'', JStr ''T''), (''author'', JStr ''A''), (''isbn'', JStr [])])
     = ([\<lparr>book_id = 1, title = ''T'', author = ''A'', year = None, isbn = Some [],
          created_at = Some t1\<rparr>],
        Inl (Uncaught IntegrityError)) \<and>
   create_book t1 rows (JArr [JInt 1]) = (rows, Inl (Uncaught AttributeError))"
  by (simp add: create_book_def dict_get_def commit_insert_def sbind_def next_id_def Let_def
        in_int64_def to_dict_def)

subsection \<open>Listing\<close>

lemma ceil_div_covers:
  assumes "0 < (k::nat)"
  shows "n \<le> ((n + k - 1) div k) * k"
proof -
  let ?m = "n + k - 1"
  have "?m div k * k = ?m - ?m mod k" by (simp add: minus_mod_eq_div_mult)
  moreover have "?m mod k \<le> k - 1" using assms by (simp add: less_Suc_eq_le [symmetric])
  ultimately show ?thesis using assms by simp
qed

lemma order_by_Inr:
  "order_by inherited sort_column ord rows = Inr query \<Longrightarrow>
     length query = length rows \<and> set query = set rows"
  by (auto simp: order_by_def split: option.splits if_splits)

lemma paginate_positive:
  assumes "0 < page" "0 < per_page" "in_int64 per_page" "in_int64 ((page - 1) * per_page)"
    and "case max_per_page of None \<Rightarrow> True | Some m \<Rightarrow> per_page \<le> m"
  shows "paginate max_per_page rows page per_page =
           Inr \<lparr>pg_items = take (nat per_page) (drop (nat ((page - 1) * per_page)) rows),
                pg_total = length rows,
                pg_pages = (length rows + nat per_page - 1) div nat per_page,
                pg_page = page\<rparr>"
  using assms by (simp add: paginate_def Let_def min_def split: option.splits)

text \<open>
  C7. With a positive page \<open>p\<close> and a positive \<open>per_page\<close> \<open>k\<close> (1 and 10 when the
  parameters are absent), within the integers the database takes for LIMIT and OFFSET
  and within the library's \<^verbatim>\<open>max_per_page\<close> if it has one, and a sort parameter
  that \<^verbatim>\<open>order_by\<close> accepts, the list request answers 200 with
  success true: the books are items \<open>(p - 1) * k\<close> up to \<open>p * k\<close> of the sorted query,
  \<^verbatim>\<open>count\<close> is their number, \<^verbatim>\<open>total_books\<close> the number of rows,
  \<^verbatim>\<open>total_pages\<close> that number divided by \<open>k\<close>, rounded up, \<^verbatim>\<open>current_page\<close> is
  \<open>p\<close>; a page beyond the last one gives an empty list, not a failure. The witness is
  the case of 3 seeded books, \<^verbatim>\<open>per_page=2\<close> and \<^verbatim>\<open>page=2\<close>: 1 book, 3 in total,
  2 pages.
\<close>

theorem get_books_pagination:
  assumes "0 < page" and "0 < per_page"
    and "in_int64 per_page" and "in_int64 ((page - 1) * per_page)"
    and "case max_per_page of None \<Rightarrow> True | Some m \<Rightarrow> per_page \<le> m"
    and "page = (case a_page args of None \<Rightarrow> 1 | Some p \<Rightarrow> p)"
    and "per_page = (case a_per_page args of None \<Rightarrow> 10 | Some k \<Rightarrow> k)"
    and "order_by inherited (case a_sort args of None \<Rightarrow> ''id'' | Some s \<Rightarrow> s)
           (case a_order args of None \<Rightarrow> ''asc'' | Some s \<Rightarrow> s) rows = Inr query"
  shows "\<exists>body. get_books inherited max_per_page rows args = Inr (ListBody body) \<and>
           status (get_books inherited max_per_page rows args) = Some 200 \<and>
           success (get_books inherited max_per_page rows args) = Some True \<and>
           r_books body =
             map to_dict (take (nat per_page) (drop (nat ((page - 1) * per_page)) query)) \<and>
           r_count body = length (r_books body) \<and>
           r_count body = min (nat per_page) (length rows - nat ((page - 1) * per_page)) \<and>
           r_total_books body = length rows \<and>
           r_total_pages body = (length rows + nat per_page - 1) div nat per_page \<and>
           r_current_page body = page \<and>
           (int (r_total_pages body) < page \<longrightarrow> r_books body = [] \<and> r_count body = 0)"
proof -
  let ?k = "nat per_page" and ?off = "nat ((page - 1) * per_page)"
  let ?pages = "(length rows + ?k - 1) div ?k"
  let ?body = "\<lparr>r_count = length (take ?k (drop ?off query)),
                 r_total_books = length query,
                 r_total_pages = (length query + ?k - 1) div ?k,
                 r_current_page = page,
                 r_sort = (case a_sort args of None \<Rightarrow> ''id'' | Some s \<Rightarrow> s),
                 r_order = (case a_order args of None \<Rightarrow> ''asc'' | Some s \<Rightarrow> s),
                 r_books = map to_dict (take ?k (drop ?off query))\<rparr>"
  have len: "length query = length rows"
    using order_by_Inr [OF assms(8)] by simp
  have g: "get_books inherited max_per_page rows args = Inr (ListBody ?body)"
    using assms(6,7,8) paginate_positive [OF assms(1-5), of query]
    by (simp add: get_books_def Let_def)
  have out: "length rows \<le> ?off" if "int ?pages < page"
  proof -
    have k: "0 < ?k" using assms(2) by simp
    have "?pages \<le> nat (page - 1)" using that by linarith
    then have "?pages * ?k \<le> nat (page - 1) * ?k" by (rule mult_le_mono1)
    moreover have "length rows \<le> ?pages * ?k" using k by (rule ceil_div_covers)
    moreover have "nat (page - 1) * ?k = ?off"
      using assms(1,2) by (simp add: nat_mult_distrib)
    ultimately show ?thesis by linarith
  qed
  show ?thesis
    using g len out by (intro exI [of _ ?body]) (auto simp: min_def)
qed

theorem get_books_pagination_witness:
  "get_books (\<lambda>n. False) None (init_db ''a'' ''b'' ''c'' [])
     \<lparr>a_sort = None, a_order = None, a_page = Some 2, a_per_page = Some 2\<rparr>
   = Inr (ListBody \<lparr>r_count = 1, r_total_books = 3, r_total_pages = 2, r_current_page = 2,
            r_sort = ''id'', r_order = ''asc'',
            r_books = [to_dict \<lparr>book_id = 3, title = ''Clean Code'',
                         author = ''Robert C. Martin'', year = Some 2008,
                         isbn = Some ''978-0132350884'', created_at = Some ''c''\<rparr>]\<rparr>) \<and>
   get_books (\<lambda>n. False) None (init_db ''a'' ''b'' ''c'' [])
     \<lparr>a_sort = None, a_order = None, a_page = Some 5, a_per_page = Some 2\<rparr>
   = Inr (ListBody \<lparr>r_count = 0, r_total_books = 3, r_total_pages = 2, r_current_page = 5,
            r_sort = ''id'', r_order = ''asc'', r_books = []\<rparr>)"
proof -
  let ?rows = "init_db ''a'' ''b'' ''c'' []"
  let ?args = "\<lparr>a_sort = None, a_order = None, a_page = Some 2, a_per_page = Some 2\<rparr>"
  have 1: "(0::int) < 2" by simp
  have 3: "in_int64 2" by (simp add: in_int64_def)
  have 4: "in_int64 ((2 - 1) * 2)" by (simp add: in_int64_def)
  have c: "case None :: int option of None \<Rightarrow> True | Some m \<Rightarrow> (2::int) \<le> m" by simp
  have 5: "(2::int) = (case a_page ?args of None \<Rightarrow> 1 | Some p \<Rightarrow> p)" by simp
  have 6: "(2::int) = (case a_per_page ?args of None \<Rightarrow> 10 | Some k \<Rightarrow> k)" by simp
  have 7: "order_by (\<lambda>n. False) (case a_sort ?args of None \<Rightarrow> ''id'' | Some s \<Rightarrow> s)
             (case a_order ?args of None \<Rightarrow> ''asc'' | Some s \<Rightarrow> s) ?rows = Inr ?rows"
    by (simp add: order_by_def column_def lower_def lower_char_def init_db_def cell_int_def)
  show ?thesis
    using get_books_pagination [OF 1 1 3 4 c 5 6 7]
    by (simp add: get_books_def order_by_def column_def lower_def lower_char_def init_db_def
          cell_int_def paginate_def in_int64_def Let_def)
qed






end
